theory Spec2Isabelle
  imports Complex_Main "HOL-Library.Multiset"
begin

section \<open>Sweep-path generation (path\_planning.py)\<close>

text \<open>
  The module plans a horizontal lawnmower path over a polygon. Its own code is the
  function \<open>generate_sweep_waypoints\<close> (and \<open>get_utm_crs\<close>); the computational
  geometry (shapely) and the map projection (pyproj) are libraries it calls. The
  embedding keeps the control flow of the source line by line and takes the library
  operations as the fields of a record \<open>kernel\<close>, so every theorem about the planner
  holds for whatever the libraries compute, unless a hypothesis says otherwise.

  Python floats are modelled by the reals: arithmetic is exact, and rounding, infinities
  and NaN are outside the model.
\<close>

subsection \<open>Data\<close>

type_synonym coord = "real \<times> real"

type_synonym waypoint = "real \<times> real \<times> real"

text \<open>The geometry objects of shapely that the planner meets, by their \<open>geom_type\<close>.\<close>

datatype geometry =
    Polygon "coord list"
  | LineString "coord list"
  | MultiLineString "coord list list"
  | Point coord
  | MultiPoint "coord list"
  | GeometryCollection "geometry list"

text \<open>A coordinate reference system, \<open>EPSG n\<close> for the string \<open>"EPSG:n"\<close>.\<close>

datatype crs = EPSG int

datatype error = ValueError string | ZeroDivisionError string

fun geom_type :: "geometry \<Rightarrow> string" where
  "geom_type (Polygon _) = ''Polygon''"
| "geom_type (LineString _) = ''LineString''"
| "geom_type (MultiLineString _) = ''MultiLineString''"
| "geom_type (Point _) = ''Point''"
| "geom_type (MultiPoint _) = ''MultiPoint''"
| "geom_type (GeometryCollection _) = ''GeometryCollection''"

text \<open>\<open>is_empty\<close>: the geometry has no coordinates.\<close>

fun is_empty :: "geometry \<Rightarrow> bool" where
  "is_empty (Polygon cs) = (cs = [])"
| "is_empty (LineString cs) = (cs = [])"
| "is_empty (MultiLineString ls) = list_all (\<lambda>cs. cs = []) ls"
| "is_empty (Point _) = False"
| "is_empty (MultiPoint cs) = (cs = [])"
| "is_empty (GeometryCollection gs) = list_all is_empty gs"

text \<open>
  Iterating a multi-part geometry (\<open>for seg in segment\<close>) yields its parts. This is the
  behaviour of shapely 1.x, which the source relies on.
\<close>

fun geoms :: "geometry \<Rightarrow> geometry list" where
  "geoms (MultiLineString ls) = map LineString ls"
| "geoms (MultiPoint cs) = map Point cs"
| "geoms (GeometryCollection gs) = gs"
| "geoms g = [g]"

text \<open>\<open>shapely.ops.transform(func, geom)\<close> applies \<open>func\<close> to every coordinate.\<close>

fun shapely_transform :: "(coord \<Rightarrow> coord) \<Rightarrow> geometry \<Rightarrow> geometry" where
  "shapely_transform f (Polygon cs) = Polygon (map f cs)"
| "shapely_transform f (LineString cs) = LineString (map f cs)"
| "shapely_transform f (MultiLineString ls) = MultiLineString (map (map f) ls)"
| "shapely_transform f (Point c) = Point (f c)"
| "shapely_transform f (MultiPoint cs) = MultiPoint (map f cs)"
| "shapely_transform f (GeometryCollection gs) = GeometryCollection (map (shapely_transform f) gs)"

text \<open>
  The library operations the planner calls. \<open>shp_Polygon\<close> is the constructor
  \<open>Polygon(coords)\<close>, which may raise; \<open>transformer a b\<close> is
  \<open>pyproj.Transformer.from_crs(a, b, always_xy=True).transform\<close>; \<open>geom_length\<close> is the
  attribute \<open>length\<close>; the others carry the name of the attribute or method.
\<close>

record kernel =
  shp_Polygon :: "coord list \<Rightarrow> error + geometry"
  is_valid :: "geometry \<Rightarrow> bool"
  centroid :: "geometry \<Rightarrow> coord"
  bounds :: "geometry \<Rightarrow> real \<times> real \<times> real \<times> real"
  intersection :: "geometry \<Rightarrow> geometry \<Rightarrow> geometry"
  geom_length :: "geometry \<Rightarrow> real"
  interpolate :: "geometry \<Rightarrow> real \<Rightarrow> coord"
  transformer :: "crs \<Rightarrow> crs \<Rightarrow> coord \<Rightarrow> coord"

subsection \<open>Python arithmetic\<close>

text \<open>\<open>int(x)\<close> of a float truncates towards zero.\<close>

definition py_int :: "real \<Rightarrow> int" where
  "py_int x = (if 0 \<le> x then \<lfloor>x\<rfloor> else \<lceil>x\<rceil>)"

text \<open>\<open>a // b\<close> on floats is the floor of the quotient and raises on a zero divisor.\<close>

definition py_floordiv :: "real \<Rightarrow> real \<Rightarrow> error + real" where
  "py_floordiv a b =
     (if b = 0 then Inl (ZeroDivisionError ''float floor division by zero'')
      else Inr (of_int \<lfloor>a / b\<rfloor>))"

subsection \<open>get\_utm\_crs\<close>

definition get_utm_crs :: "real \<Rightarrow> real \<Rightarrow> crs" where
  "get_utm_crs lat lon =
     (let zone_number = py_int ((lon + 180) / 6) + 1
      in if lat \<ge> 0 then EPSG (32600 + zone_number) else EPSG (32700 + zone_number))"

subsection \<open>generate\_sweep\_waypoints\<close>

text \<open>
  The body of the scan loop (source lines 64 to 71): the segments that one intersection
  result appends to \<open>lines\<close>.
\<close>

definition retained :: "geometry \<Rightarrow> geometry list" where
  "retained segment =
     (if \<not> is_empty segment then
        (if geom_type segment = ''LineString'' then [segment]
         else if geom_type segment = ''MultiLineString'' then geoms segment
         else [])
      else [])"

text \<open>
  The scan loop \<open>while y <= maxy\<close> (source lines 63 to 72). Nothing bounds its number of
  iterations, so it is a partial function: \<open>None\<close> is a run that never leaves the loop.
  Beside \<open>lines\<close> the model keeps \<open>scanned\<close>, the scan lines built so far (the source
  holds each only in the local \<open>line\<close>).
\<close>

partial_function (option) sweep_loop ::
  "kernel \<Rightarrow> geometry \<Rightarrow> real \<Rightarrow> real \<Rightarrow> real \<Rightarrow> real \<Rightarrow> real \<Rightarrow> geometry list \<Rightarrow> geometry list
     \<Rightarrow> (geometry list \<times> geometry list) option" where
  "sweep_loop K poly_utm minx maxx maxy spacing y lines scanned =
     (if y \<le> maxy then
        (let line = LineString [(minx, y), (maxx, y)];
             segment = intersection K line poly_utm
         in sweep_loop K poly_utm minx maxx maxy spacing (y + spacing)
              (lines @ retained segment) (scanned @ [line]))
      else Some (lines, scanned))"

text \<open>The inner loop \<open>for i in range(num_points)\<close> (source lines 79 to 84).\<close>

definition segment_points_of ::
  "kernel \<Rightarrow> (coord \<Rightarrow> coord) \<Rightarrow> real \<Rightarrow> geometry \<Rightarrow> int \<Rightarrow> waypoint list" where
  "segment_points_of K project_to_latlon altitude line num_points =
     map (\<lambda>i. let t = real i / real_of_int (num_points - 1);
                  pt = interpolate K line (t * geom_length K line);
                  (lon, lat) = project_to_latlon pt
              in (lon, lat, altitude))
         [0..<nat num_points]"

text \<open>\<open>num_points\<close> (source line 78); the floor division may raise.\<close>

definition num_points_of :: "real \<Rightarrow> real \<Rightarrow> error + int" where
  "num_points_of len waypoint_interval =
     (case py_floordiv len waypoint_interval of
        Inl e \<Rightarrow> Inl e
      | Inr q \<Rightarrow> Inr (max (py_int q + 1) 2))"

text \<open>The loop \<open>for line in lines\<close> (source lines 76 to 88), on \<open>waypoints\<close> and \<open>reverse\<close>.\<close>

fun waypoint_loop ::
  "kernel \<Rightarrow> (coord \<Rightarrow> coord) \<Rightarrow> real \<Rightarrow> real \<Rightarrow> geometry list \<Rightarrow> waypoint list \<Rightarrow> bool
     \<Rightarrow> error + waypoint list" where
  "waypoint_loop K project_to_latlon waypoint_interval altitude [] waypoints reverse =
     Inr waypoints"
| "waypoint_loop K project_to_latlon waypoint_interval altitude (line # rest) waypoints reverse =
     (case num_points_of (geom_length K line) waypoint_interval of
        Inl e \<Rightarrow> Inl e
      | Inr num_points \<Rightarrow>
          (let segment_points = segment_points_of K project_to_latlon altitude line num_points;
               segment_points = (if reverse then rev segment_points else segment_points)
           in waypoint_loop K project_to_latlon waypoint_interval altitude rest
                (waypoints @ segment_points) (\<not> reverse)))"

text \<open>
  The planner. The outer \<open>option\<close> is \<open>None\<close> when the call never returns; inside,
  \<open>Inl\<close> is the exception raised and \<open>Inr\<close> the list of waypoints returned.
\<close>

definition generate_sweep_waypoints ::
  "kernel \<Rightarrow> coord list \<Rightarrow> real \<Rightarrow> real \<Rightarrow> real \<Rightarrow> (error + waypoint list) option" where
  "generate_sweep_waypoints K polygon_coords spacing waypoint_interval altitude =
     (case shp_Polygon K polygon_coords of
        Inl e \<Rightarrow> Some (Inl e)
      | Inr poly_lonlat \<Rightarrow>
          if \<not> is_valid K poly_lonlat \<or> is_empty poly_lonlat
          then Some (Inl (ValueError ''Invalid polygon geometry.''))
          else
            (let c = centroid K poly_lonlat;
                 utm_crs = get_utm_crs (snd c) (fst c);
                 project_to_utm = transformer K (EPSG 4326) utm_crs;
                 project_to_latlon = transformer K utm_crs (EPSG 4326);
                 poly_utm = shapely_transform project_to_utm poly_lonlat;
                 (minx, miny, maxx, maxy) = bounds K poly_utm
             in case sweep_loop K poly_utm minx maxx maxy spacing miny [] [] of
                  None \<Rightarrow> None
                | Some (lines, scanned) \<Rightarrow>
                    Some (waypoint_loop K project_to_latlon waypoint_interval altitude
                            (sort_key (\<lambda>l. snd (centroid K l)) lines) [] False)))"

subsection \<open>Names for the locals of the planner\<close>

text \<open>
  The values the planner computes between the validity check and the scan loop, as
  functions of the accepted polygon \<open>poly_lonlat\<close>.
\<close>

definition utm_crs_of :: "kernel \<Rightarrow> geometry \<Rightarrow> crs" where
  "utm_crs_of K poly_lonlat =
     get_utm_crs (snd (centroid K poly_lonlat)) (fst (centroid K poly_lonlat))"

definition project_to_latlon_of :: "kernel \<Rightarrow> geometry \<Rightarrow> coord \<Rightarrow> coord" where
  "project_to_latlon_of K poly_lonlat = transformer K (utm_crs_of K poly_lonlat) (EPSG 4326)"

definition poly_utm_of :: "kernel \<Rightarrow> geometry \<Rightarrow> geometry" where
  "poly_utm_of K poly_lonlat =
     shapely_transform (transformer K (EPSG 4326) (utm_crs_of K poly_lonlat)) poly_lonlat"

subsection \<open>The specification's closed forms\<close>

text \<open>
  The specification describes the scan lines by a formula rather than by a loop: the
  lines at \<open>y = miny + k * s\<close> for \<open>k = 0, \<dots>, \<lfloor>(maxy - miny) / s\<rfloor>\<close>, each spanning
  \<open>[minx, maxx]\<close>. These definitions follow the specification's words; the theorems
  below compare them with the loop.
\<close>

definition scan_ys :: "real \<Rightarrow> real \<Rightarrow> real \<Rightarrow> real list" where
  "scan_ys miny maxy s = map (\<lambda>k. miny + real k * s) [0..<nat (\<lfloor>(maxy - miny) / s\<rfloor> + 1)]"

definition scan_line :: "real \<Rightarrow> real \<Rightarrow> real \<Rightarrow> geometry" where
  "scan_line minx maxx y = LineString [(minx, y), (maxx, y)]"

text \<open>All clipped segments, scan line after scan line, in the order they are generated.\<close>

definition segments_of :: "kernel \<Rightarrow> geometry \<Rightarrow> real \<Rightarrow> geometry list" where
  "segments_of K poly_lonlat spacing =
     (case bounds K (poly_utm_of K poly_lonlat) of
        (minx, miny, maxx, maxy) \<Rightarrow>
          concat (map (\<lambda>y. retained (intersection K (scan_line minx maxx y) (poly_utm_of K poly_lonlat)))
                      (scan_ys miny maxy spacing)))"

text \<open>The segments in the order in which the waypoint loop visits them.\<close>

definition sorted_segments :: "kernel \<Rightarrow> geometry \<Rightarrow> real \<Rightarrow> geometry list" where
  "sorted_segments K poly_lonlat spacing =
     sort_key (\<lambda>l. snd (centroid K l)) (segments_of K poly_lonlat spacing)"

text \<open>\<open>num_points\<close> by the specification's formula, and the waypoints of one segment
  in the segment's own (forward) direction.\<close>

definition spec_num_points :: "real \<Rightarrow> real \<Rightarrow> int" where
  "spec_num_points len waypoint_interval = max (\<lfloor>len / waypoint_interval\<rfloor> + 1) 2"

definition forward_points :: "kernel \<Rightarrow> (coord \<Rightarrow> coord) \<Rightarrow> real \<Rightarrow> real \<Rightarrow> geometry \<Rightarrow> waypoint list" where
  "forward_points K project_to_latlon waypoint_interval altitude line =
     segment_points_of K project_to_latlon altitude line
       (spec_num_points (geom_length K line) waypoint_interval)"

text \<open>
  What the specification asks of a polygon: at least three distinct vertices and a
  nonzero signed area (shoelace formula over the closed ring).
\<close>

definition signed_area2 :: "coord list \<Rightarrow> real" where
  "signed_area2 cs = sum_list (map (\<lambda>(p, q). fst p * snd q - fst q * snd p) (zip cs (rotate1 cs)))"

definition degenerate :: "coord list \<Rightarrow> bool" where
  "degenerate cs = (length (remdups cs) < 3 \<or> signed_area2 cs = 0)"

subsection \<open>A reference kernel for the plane\<close>

text \<open>
  An exact kernel for convex polygons and horizontal lines in a planar frame, with the
  identity as projection. It instantiates the theorems at concrete inputs; no theorem
  about the planner depends on it.
\<close>

definition pk_Polygon :: "coord list \<Rightarrow> error + geometry" where
  "pk_Polygon cs =
     (if cs \<noteq> [] \<and> length cs < 3
      then Inl (ValueError ''A LinearRing must have at least 3 coordinate tuples'')
      else Inr (Polygon cs))"

fun pk_is_valid :: "geometry \<Rightarrow> bool" where
  "pk_is_valid (Polygon cs) = (cs = [] \<or> \<not> degenerate cs)"
| "pk_is_valid _ = True"

fun coords_of :: "geometry \<Rightarrow> coord list" where
  "coords_of (Polygon cs) = cs"
| "coords_of (LineString cs) = cs"
| "coords_of (MultiLineString ls) = concat ls"
| "coords_of (Point c) = [c]"
| "coords_of (MultiPoint cs) = cs"
| "coords_of (GeometryCollection gs) = concat (map coords_of gs)"

definition mean_coord :: "coord list \<Rightarrow> coord" where
  "mean_coord cs =
     (sum_list (map fst cs) / real (length cs), sum_list (map snd cs) / real (length cs))"

fun pk_centroid :: "geometry \<Rightarrow> coord" where
  "pk_centroid (Polygon cs) =
     (sum_list (map (\<lambda>(p, q). (fst p + fst q) * (fst p * snd q - fst q * snd p)) (zip cs (rotate1 cs)))
        / (3 * signed_area2 cs),
      sum_list (map (\<lambda>(p, q). (snd p + snd q) * (fst p * snd q - fst q * snd p)) (zip cs (rotate1 cs)))
        / (3 * signed_area2 cs))"
| "pk_centroid g = mean_coord (coords_of g)"

definition pk_bounds :: "geometry \<Rightarrow> real \<times> real \<times> real \<times> real" where
  "pk_bounds g =
     (case coords_of g of
        [] \<Rightarrow> (0, 0, 0, 0)
      | c # cs \<Rightarrow> (fold min (map fst cs) (fst c), fold min (map snd cs) (snd c),
                   fold max (map fst cs) (fst c), fold max (map snd cs) (snd c)))"

text \<open>Where the horizontal line at height \<open>y\<close> meets the edge from \<open>p\<close> to \<open>q\<close>.\<close>

definition edge_xs :: "real \<Rightarrow> coord \<times> coord \<Rightarrow> real list" where
  "edge_xs y e =
     (case e of ((x1, y1), (x2, y2)) \<Rightarrow>
        if y1 = y2 then (if y = y1 then [x1, x2] else [])
        else if min y1 y2 \<le> y \<and> y \<le> max y1 y2
             then [x1 + (y - y1) * (x2 - x1) / (y2 - y1)]
             else [])"

fun pk_intersection :: "geometry \<Rightarrow> geometry \<Rightarrow> geometry" where
  "pk_intersection (LineString [(xa, ya), (xb, yb)]) (Polygon cs) =
     (if ya \<noteq> yb then GeometryCollection []
      else case concat (map (edge_xs ya) (zip cs (rotate1 cs))) of
             [] \<Rightarrow> GeometryCollection []
           | x # xs \<Rightarrow>
               (let lo = max (fold min xs x) (min xa xb);
                    hi = min (fold max xs x) (max xa xb)
                in if hi < lo then GeometryCollection []
                   else if lo = hi then Point (lo, ya)
                   else if xa \<le> xb then LineString [(lo, ya), (hi, ya)]
                   else LineString [(hi, ya), (lo, ya)]))"
| "pk_intersection _ _ = GeometryCollection []"

definition seg_len :: "coord \<Rightarrow> coord \<Rightarrow> real" where
  "seg_len p q =
     (if snd p = snd q then \<bar>fst q - fst p\<bar>
      else if fst p = fst q then \<bar>snd q - snd p\<bar>
      else sqrt ((fst q - fst p)\<^sup>2 + (snd q - snd p)\<^sup>2))"

fun pk_length :: "geometry \<Rightarrow> real" where
  "pk_length (LineString cs) = sum_list (map (\<lambda>(p, q). seg_len p q) (zip cs (tl cs)))"
| "pk_length _ = 0"

fun pk_interpolate :: "geometry \<Rightarrow> real \<Rightarrow> coord" where
  "pk_interpolate (LineString [p, q]) d =
     (if seg_len p q = 0 then p
      else (let t = max 0 (min 1 (d / seg_len p q))
            in (fst p + t * (fst q - fst p), snd p + t * (snd q - snd p))))"
| "pk_interpolate g d = mean_coord (coords_of g)"

definition planar_kernel :: kernel where
  "planar_kernel =
     \<lparr> shp_Polygon = pk_Polygon, is_valid = pk_is_valid, centroid = pk_centroid,
       bounds = pk_bounds, intersection = pk_intersection, geom_length = pk_length,
       interpolate = pk_interpolate, transformer = (\<lambda>_ _ c. c) \<rparr>"

definition square :: "coord list" where
  "square = [(0, 0), (0, 100), (100, 100), (100, 0)]"

text \<open>A projected point paired with the altitude: one waypoint.\<close>

definition tag :: "(coord \<Rightarrow> coord) \<Rightarrow> real \<Rightarrow> coord \<Rightarrow> waypoint" where
  "tag project_to_latlon altitude pt = (case project_to_latlon pt of (lon, lat) \<Rightarrow> (lon, lat, altitude))"

text \<open>
  The specification's scenario: the square, swept with spacing 50 and a waypoint every
  10 metres. \<open>square_path\<close> lists the planar points in flight order: the line at height 0
  from low to high \<open>x\<close>, the line at height 50 from high to low, the line at height 100
  from low to high.
\<close>

definition square_path :: "coord list" where
  "square_path =
     [(0, 0), (10, 0), (20, 0), (30, 0), (40, 0), (50, 0), (60, 0), (70, 0), (80, 0), (90, 0), (100, 0),
      (100, 50), (90, 50), (80, 50), (70, 50), (60, 50), (50, 50), (40, 50), (30, 50), (20, 50), (10, 50), (0, 50),
      (0, 100), (10, 100), (20, 100), (30, 100), (40, 100), (50, 100), (60, 100), (70, 100), (80, 100), (90, 100), (100, 100)]"


text \<open>
  The direction in which the \<open>i\<close>-th segment of the sorted sequence is flown: forward for
  the first, and flipped at every following segment.
\<close>

definition traversal :: "nat \<Rightarrow> 'a list \<Rightarrow> 'a list" where
  "traversal i pts = (if even i then pts else rev pts)"

section \<open>Properties of the loops\<close>

subsection \<open>The scan loop\<close>

lemma scan_ys_Nil: "0 < s \<Longrightarrow> \<not> y \<le> maxy \<Longrightarrow> scan_ys y maxy s = []"
proof -
  assume s: "0 < s" and y: "\<not> y \<le> maxy"
  then have "(maxy - y) / s < 0" by (simp add: divide_neg_pos)
  then have "\<lfloor>(maxy - y) / s\<rfloor> < 0" by (simp add: floor_less_iff)
  then have "nat (\<lfloor>(maxy - y) / s\<rfloor> + 1) = 0" by linarith
  then show ?thesis unfolding scan_ys_def by simp
qed

lemma scan_count_step:
  assumes s: "0 < s" and y: "y \<le> maxy"
  shows "nat (\<lfloor>(maxy - y) / s\<rfloor> + 1) = Suc (nat (\<lfloor>(maxy - (y + s)) / s\<rfloor> + 1))"
proof -
  define q where "q = \<lfloor>(maxy - y) / s\<rfloor>"
  have "(maxy - (y + s)) / s = (maxy - y) / s - 1"
    using s by (simp add: field_simps)
  then have f: "\<lfloor>(maxy - (y + s)) / s\<rfloor> = q - 1" by (simp add: q_def)
  have "0 \<le> (maxy - y) / s" using s y by simp
  then have q0: "0 \<le> q" by (simp add: q_def)
  have "nat (q + 1) = Suc (nat (q - 1 + 1))" using q0 by simp
  then show ?thesis unfolding f q_def [symmetric] .
qed

lemma scan_ys_Cons:
  assumes s: "0 < s" and y: "y \<le> maxy"
  shows "scan_ys y maxy s = y # scan_ys (y + s) maxy s"
proof -
  let ?n = "nat (\<lfloor>(maxy - (y + s)) / s\<rfloor> + 1)"
  have "scan_ys y maxy s = map (\<lambda>k. y + real k * s) [0..<Suc ?n]"
    by (simp add: scan_ys_def scan_count_step [OF s y])
  also have "\<dots> = y # map (\<lambda>k. y + real (Suc k) * s) [0..<?n]"
    by (simp only: map_upt_Suc) simp
  also have "map (\<lambda>k. y + real (Suc k) * s) [0..<?n] = scan_ys (y + s) maxy s"
    unfolding scan_ys_def by (rule arg_cong2 [where f = map]) (auto simp: algebra_simps)
  finally show ?thesis .
qed

lemma sweep_loop_pos:
  assumes s: "0 < s"
  shows "sweep_loop K P minx maxx maxy s y lines scanned =
    Some (lines @ concat (map (\<lambda>y. retained (intersection K (scan_line minx maxx y) P)) (scan_ys y maxy s)),
          scanned @ map (scan_line minx maxx) (scan_ys y maxy s))"
proof (induction "nat (\<lfloor>(maxy - y) / s\<rfloor> + 1)" arbitrary: y lines scanned)
  case 0
  have "\<not> y \<le> maxy"
  proof
    assume "y \<le> maxy"
    from scan_count_step [OF s this] 0 show False by simp
  qed
  then show ?case
    by (subst sweep_loop.simps) (simp add: scan_ys_Nil [OF s])
next
  case (Suc n)
  have y: "y \<le> maxy"
  proof (rule ccontr)
    assume "\<not> y \<le> maxy"
    then have "(maxy - y) / s < 0" using s by (simp add: divide_neg_pos)
    then have "\<lfloor>(maxy - y) / s\<rfloor> < 0" by (simp add: floor_less_iff)
    with Suc(2) show False by simp
  qed
  have "n = nat (\<lfloor>(maxy - (y + s)) / s\<rfloor> + 1)"
    using Suc(2) scan_count_step [OF s y] by simp
  from Suc(1) [OF this] y show ?case
    by (subst sweep_loop.simps) (simp add: scan_ys_Cons [OF s y] scan_line_def Let_def)
qed





subsection \<open>The waypoint loop\<close>

lemma py_int_of_int: "py_int (of_int n) = n"
  by (simp add: py_int_def)

lemma num_points_of_nonzero:
  "waypoint_interval \<noteq> 0 \<Longrightarrow>
     num_points_of len waypoint_interval = Inr (spec_num_points len waypoint_interval)"
  by (simp add: num_points_of_def py_floordiv_def py_int_of_int spec_num_points_def)


lemma waypoint_loop_nonzero:
  assumes "waypoint_interval \<noteq> 0"
  shows "waypoint_loop K tr waypoint_interval altitude ls waypoints reverse =
    Inr (waypoints @ concat (map (\<lambda>i.
           if even i \<noteq> reverse then forward_points K tr waypoint_interval altitude (ls ! i)
           else rev (forward_points K tr waypoint_interval altitude (ls ! i)))
         [0..<length ls]))"
proof (induction ls arbitrary: waypoints reverse)
  case Nil
  show ?case by simp
next
  case (Cons l ls)
  show ?case
    by (simp only: waypoint_loop.simps num_points_of_nonzero [OF assms] sum.case Let_def
          Cons.IH length_Cons map_upt_Suc forward_points_def [symmetric])
       (auto intro!: arg_cong [where f = concat])
qed


lemma segment_points_of_tag:
  "segment_points_of K tr altitude line n =
     map (\<lambda>i. tag tr altitude (interpolate K line (real i / real_of_int (n - 1) * geom_length K line)))
         [0..<nat n]"
  by (simp add: segment_points_of_def tag_def Let_def)

lemma upt_11: "[0..<11] = [0, 1, 2, 3, 4, 5, 6, 7, 8, 9, 10]"
  by (simp add: upt_rec)

lemma scene_forward_points:
  assumes len: "geom_length K line = 100"
    and itp: "\<And>d. 0 \<le> d \<Longrightarrow> d \<le> 100 \<Longrightarrow> interpolate K line d = (d, y)"
  shows "forward_points K tr 10 altitude line =
    map (\<lambda>x. tag tr altitude (x, y)) [0, 10, 20, 30, 40, 50, 60, 70, 80, 90, 100]"
  by (simp add: forward_points_def spec_num_points_def len segment_points_of_tag upt_11 itp)


subsection \<open>The planner\<close>

lemma generate_accepted:
  assumes "shp_Polygon K polygon_coords = Inr g" and "is_valid K g" and "\<not> is_empty g"
  shows "generate_sweep_waypoints K polygon_coords spacing waypoint_interval altitude =
    (case bounds K (poly_utm_of K g) of (minx, miny, maxx, maxy) \<Rightarrow>
       case sweep_loop K (poly_utm_of K g) minx maxx maxy spacing miny [] [] of
         None \<Rightarrow> None
       | Some (lines, scanned) \<Rightarrow>
           Some (waypoint_loop K (project_to_latlon_of K g) waypoint_interval altitude
                   (sort_key (\<lambda>l. snd (centroid K l)) lines) [] False))"
  unfolding generate_sweep_waypoints_def poly_utm_of_def project_to_latlon_of_def utm_crs_of_def
    Let_def
  using assms by (simp split: prod.splits)

lemma generate_returns:
  assumes "shp_Polygon K polygon_coords = Inr g" and "is_valid K g" and "\<not> is_empty g"
    and "0 < spacing"
  shows "generate_sweep_waypoints K polygon_coords spacing waypoint_interval altitude =
    Some (waypoint_loop K (project_to_latlon_of K g) waypoint_interval altitude
            (sorted_segments K g spacing) [] False)"
  by (simp add: generate_accepted [OF assms(1-3)] sweep_loop_pos [OF assms(4)]
        sorted_segments_def segments_of_def split: prod.splits)

lemma generate_rejected:
  assumes "shp_Polygon K polygon_coords = Inr g" and "\<not> is_valid K g \<or> is_empty g"
  shows "generate_sweep_waypoints K polygon_coords spacing waypoint_interval altitude =
    Some (Inl (ValueError ''Invalid polygon geometry.''))"
  using assms by (auto simp add: generate_sweep_waypoints_def)

lemma generate_constructor_raises:
  assumes "shp_Polygon K polygon_coords = Inl e"
  shows "generate_sweep_waypoints K polygon_coords spacing waypoint_interval altitude = Some (Inl e)"
  using assms by (simp add: generate_sweep_waypoints_def)

lemma generate_closed:
  assumes "shp_Polygon K polygon_coords = Inr g" and "is_valid K g" and "\<not> is_empty g"
    and "0 < spacing" and "waypoint_interval \<noteq> 0"
  shows "generate_sweep_waypoints K polygon_coords spacing waypoint_interval altitude =
    Some (Inr (concat (map (\<lambda>i. traversal i
                 (forward_points K (project_to_latlon_of K g) waypoint_interval altitude
                    (sorted_segments K g spacing ! i)))
               [0..<length (sorted_segments K g spacing)])))"
  by (simp add: generate_returns [OF assms(1-4)] waypoint_loop_nonzero [OF assms(5)] traversal_def
        cong: if_cong)

subsection \<open>The reference kernel on the square\<close>

lemma pk_square_accepted:
  "shp_Polygon planar_kernel square = Inr (Polygon square)"
  "is_valid planar_kernel (Polygon square)"
  "\<not> is_empty (Polygon square)"
  by (simp_all add: planar_kernel_def pk_Polygon_def square_def degenerate_def signed_area2_def)

lemma pk_poly_utm: "poly_utm_of planar_kernel g = g"
proof -
  have "shapely_transform (\<lambda>c. c) g = g"
    by (induction g) (simp_all add: map_idI)
  then show ?thesis by (simp add: poly_utm_of_def planar_kernel_def)
qed


lemma pk_square_bounds: "bounds planar_kernel (Polygon square) = (0, 0, 100, 100)"
  by (simp add: planar_kernel_def pk_bounds_def square_def)

lemma pk_square_clip:
  "intersection planar_kernel (LineString [(0, 0), (100, 0)]) (Polygon square) = LineString [(0, 0), (100, 0)]"
  "intersection planar_kernel (LineString [(0, 50), (100, 50)]) (Polygon square) = LineString [(0, 50), (100, 50)]"
  "intersection planar_kernel (LineString [(0, 100), (100, 100)]) (Polygon square) = LineString [(0, 100), (100, 100)]"
  by (simp_all add: planar_kernel_def square_def edge_xs_def Let_def)

lemma pk_hline_length: "geom_length planar_kernel (LineString [(a, y), (b, y)]) = \<bar>b - a\<bar>"
  by (simp add: planar_kernel_def seg_len_def)

lemma pk_hline_centroid: "centroid planar_kernel (LineString [(a, y), (b, y)]) = ((a + b) / 2, y)"
  by (simp add: planar_kernel_def mean_coord_def)

lemma pk_hline_interpolate:
  assumes "0 \<le> d" "d \<le> b" "0 < b"
  shows "interpolate planar_kernel (LineString [(0, y), (b, y)]) d = (d, y)"
proof -
  have "d / b \<le> 1" using assms by simp
  moreover have "0 \<le> d / b" using assms by simp
  ultimately have "max 0 (min 1 (d / b)) = d / b" by simp
  then show ?thesis using assms by (simp add: planar_kernel_def seg_len_def Let_def)
qed

lemma scan_ys_square: "scan_ys 0 100 50 = [0, 50, 100]"
  by (simp add: scan_ys_def numeral_3_eq_3)

lemma pk_square_sorted_segments:
  "sorted_segments planar_kernel (Polygon square) 50 =
     [LineString [(0, 0), (100, 0)], LineString [(0, 50), (100, 50)], LineString [(0, 100), (100, 100)]]"
  by (simp add: sorted_segments_def segments_of_def pk_poly_utm pk_square_bounds scan_ys_square
        scan_line_def pk_square_clip retained_def pk_hline_centroid)



section \<open>The claims\<close>

text \<open>
  C1. On a polygon that passes the validity check, with a positive spacing and a nonzero
  waypoint interval, the planner returns the concatenation, over the segments in sorted
  order, of each segment's waypoints flown in direction \<open>traversal i\<close>: the first segment
  forward, and every following segment reversed relative to the one before it, so two
  segments adjacent in the sorted order are always flown in opposite directions.
\<close>

theorem alternation:
  assumes "shp_Polygon K polygon_coords = Inr g" and "is_valid K g" and "\<not> is_empty g"
    and "0 < spacing" and "waypoint_interval \<noteq> 0"
  shows "generate_sweep_waypoints K polygon_coords spacing waypoint_interval altitude =
           Some (Inr (concat (map (\<lambda>i. traversal i
                        (forward_points K (project_to_latlon_of K g) waypoint_interval altitude
                           (sorted_segments K g spacing ! i)))
                      [0..<length (sorted_segments K g spacing)])))
       \<and> (\<forall>pts :: waypoint list. traversal 0 pts = pts)
       \<and> (\<forall>i (pts :: waypoint list). traversal (Suc i) pts = rev (traversal i pts))"
  using generate_closed [OF assms] by (simp add: traversal_def)

text \<open>The square: forward at height 0, reversed at height 50, forward at height 100.\<close>

theorem alternation_witness:
  "generate_sweep_waypoints planar_kernel square 50 10 20 =
     Some (Inr (forward_points planar_kernel (\<lambda>c. c) 10 20 (LineString [(0, 0), (100, 0)])
              @ rev (forward_points planar_kernel (\<lambda>c. c) 10 20 (LineString [(0, 50), (100, 50)]))
              @ forward_points planar_kernel (\<lambda>c. c) 10 20 (LineString [(0, 100), (100, 100)])))"
proof -
  have s: "(0::real) < 50" and w: "(10::real) \<noteq> 0" by simp_all
  have p: "project_to_latlon_of planar_kernel (Polygon square) = (\<lambda>c. c)"
    by (simp add: project_to_latlon_of_def planar_kernel_def)
  have three: "[0..<3] = [0, Suc 0, Suc (Suc 0)]" by (simp add: upt_rec)
  from alternation [OF pk_square_accepted s w, of 20]
  have "generate_sweep_waypoints planar_kernel square 50 10 20 =
           Some (Inr (concat (map (\<lambda>i. traversal i
                        (forward_points planar_kernel (project_to_latlon_of planar_kernel (Polygon square)) 10 20
                           (sorted_segments planar_kernel (Polygon square) 50 ! i)))
                      [0..<length (sorted_segments planar_kernel (Polygon square) 50)])))"
    by blast
  then show ?thesis
    by (simp add: pk_square_sorted_segments p three traversal_def)
qed








text \<open>
  C5. The segments of all scan lines, collected in generation order (\<open>segments_of\<close>), are
  sorted by the \<open>y\<close> of their centroid: the sorted sequence is ascending in that key, is a
  permutation of the collected one, and keeps segments of equal key in generation order
  (a stable sort). The returned list is the concatenation of one block per segment, in
  the sorted order, the \<open>i\<close>-th block holding the waypoints of the \<open>i\<close>-th sorted segment.
\<close>

theorem segment_ordering:
  assumes "shp_Polygon K polygon_coords = Inr g" and "is_valid K g" and "\<not> is_empty g"
    and "0 < spacing" and "waypoint_interval \<noteq> 0"
  shows "sorted (map (\<lambda>l. snd (centroid K l)) (sorted_segments K g spacing))
       \<and> mset (sorted_segments K g spacing) = mset (segments_of K g spacing)
       \<and> (\<forall>k. filter (\<lambda>l. snd (centroid K l) = k) (sorted_segments K g spacing) =
               filter (\<lambda>l. snd (centroid K l) = k) (segments_of K g spacing))
       \<and> (\<exists>blocks. length blocks = length (sorted_segments K g spacing)
            \<and> (\<forall>i < length blocks. mset (blocks ! i) =
                  mset (forward_points K (project_to_latlon_of K g) waypoint_interval altitude
                          (sorted_segments K g spacing ! i)))
            \<and> generate_sweep_waypoints K polygon_coords spacing waypoint_interval altitude =
                Some (Inr (concat blocks)))"
proof (intro conjI allI)
  show "sorted (map (\<lambda>l. snd (centroid K l)) (sorted_segments K g spacing))"
    by (simp add: sorted_segments_def)
  show "mset (sorted_segments K g spacing) = mset (segments_of K g spacing)"
    by (simp add: sorted_segments_def)
  show "filter (\<lambda>l. snd (centroid K l) = k) (sorted_segments K g spacing) =
        filter (\<lambda>l. snd (centroid K l) = k) (segments_of K g spacing)" for k
    by (simp add: sorted_segments_def sort_key_stable)
  let ?blocks = "map (\<lambda>i. traversal i
                 (forward_points K (project_to_latlon_of K g) waypoint_interval altitude
                    (sorted_segments K g spacing ! i)))
               [0..<length (sorted_segments K g spacing)]"
  have "length ?blocks = length (sorted_segments K g spacing)" by simp
  moreover have "\<forall>i < length ?blocks. mset (?blocks ! i) =
                  mset (forward_points K (project_to_latlon_of K g) waypoint_interval altitude
                          (sorted_segments K g spacing ! i))"
    by (simp add: traversal_def)
  moreover have "generate_sweep_waypoints K polygon_coords spacing waypoint_interval altitude =
                Some (Inr (concat ?blocks))"
    by (rule generate_closed [OF assms])
  ultimately show "\<exists>blocks. length blocks = length (sorted_segments K g spacing)
            \<and> (\<forall>i < length blocks. mset (blocks ! i) =
                  mset (forward_points K (project_to_latlon_of K g) waypoint_interval altitude
                          (sorted_segments K g spacing ! i)))
            \<and> generate_sweep_waypoints K polygon_coords spacing waypoint_interval altitude =
                Some (Inr (concat blocks))"
    by blast
qed

text \<open>The square with spacing 50: three blocks.\<close>

theorem segment_ordering_witness:
  "sorted (map (\<lambda>l. snd (centroid planar_kernel l)) (sorted_segments planar_kernel (Polygon square) 50))
   \<and> (\<exists>blocks. length blocks = 3
        \<and> generate_sweep_waypoints planar_kernel square 50 10 20 = Some (Inr (concat blocks)))"
proof -
  have s: "(0::real) < 50" and w: "(10::real) \<noteq> 0" by simp_all
  note t = segment_ordering [OF pk_square_accepted s w, of 20]
  from t have a: "sorted (map (\<lambda>l. snd (centroid planar_kernel l))
      (sorted_segments planar_kernel (Polygon square) 50))" by blast
  from t obtain blocks where "length blocks = length (sorted_segments planar_kernel (Polygon square) 50)"
    and g: "generate_sweep_waypoints planar_kernel square 50 10 20 = Some (Inr (concat blocks))"
    by blast
  then have "length blocks = 3" by (simp add: pk_square_sorted_segments)
  with a g show ?thesis by blast
qed

text \<open>
  C6. The scenario of the specification. Take any kernel that computes the plain
  geometric facts about the square: its bounds are \<open>[0, 100] \<times> [0, 100]\<close>; the scan lines
  at heights 0, 50 and 100 meet it in the segment from \<open>(0, y)\<close> to \<open>(100, y)\<close>, of length
  100, with centroid at height \<open>y\<close>, whose point at distance \<open>d\<close> is \<open>(d, y)\<close>. Then with
  spacing 50, interval 10 and altitude 20 the scan loop builds exactly the three scan
  lines at heights 0, 50, 100 and retains one segment for each; a segment of length 100
  gets 11 waypoints; and the planner returns the 33 points of \<open>square_path\<close>, each
  projected back and paired with altitude 20: low to high \<open>x\<close> on line 0, high to low on
  line 1, low to high on line 2.
\<close>

theorem square_scenario:
  assumes acc: "shp_Polygon K polygon_coords = Inr g" "is_valid K g" "\<not> is_empty g"
    and utm: "poly_utm_of K g = Polygon square"
    and bnd: "bounds K (Polygon square) = (0, 0, 100, 100)"
    and clip: "\<And>y. y \<in> {0, 50, 100} \<Longrightarrow>
        intersection K (LineString [(0, y), (100, y)]) (Polygon square) = LineString [(0, y), (100, y)]"
    and len: "\<And>y. y \<in> {0, 50, 100} \<Longrightarrow> geom_length K (LineString [(0, y), (100, y)]) = 100"
    and cen: "\<And>y. y \<in> {0, 50, 100} \<Longrightarrow> snd (centroid K (LineString [(0, y), (100, y)])) = y"
    and itp: "\<And>y d. y \<in> {0, 50, 100} \<Longrightarrow> 0 \<le> d \<Longrightarrow> d \<le> 100 \<Longrightarrow>
        interpolate K (LineString [(0, y), (100, y)]) d = (d, y)"
  shows "sweep_loop K (Polygon square) 0 100 100 50 0 [] [] =
           Some ([LineString [(0, 0), (100, 0)], LineString [(0, 50), (100, 50)],
                  LineString [(0, 100), (100, 100)]],
                 [LineString [(0, 0), (100, 0)], LineString [(0, 50), (100, 50)],
                  LineString [(0, 100), (100, 100)]])
       \<and> num_points_of 100 10 = Inr 11
       \<and> generate_sweep_waypoints K polygon_coords 50 10 20 =
           Some (Inr (map (tag (project_to_latlon_of K g) 20) square_path))
       \<and> length square_path = 33"
proof (intro conjI)
  show "sweep_loop K (Polygon square) 0 100 100 50 0 [] [] =
           Some ([LineString [(0, 0), (100, 0)], LineString [(0, 50), (100, 50)],
                  LineString [(0, 100), (100, 100)]],
                 [LineString [(0, 0), (100, 0)], LineString [(0, 50), (100, 50)],
                  LineString [(0, 100), (100, 100)]])"
    by (simp add: sweep_loop_pos scan_ys_square scan_line_def clip retained_def)
  show "num_points_of 100 10 = Inr 11"
    by (simp add: num_points_of_nonzero spec_num_points_def)
  show "length square_path = 33" by (simp add: square_path_def)
  have segs: "segments_of K g 50 = [LineString [(0, 0), (100, 0)], LineString [(0, 50), (100, 50)],
                  LineString [(0, 100), (100, 100)]]"
    by (simp add: segments_of_def utm bnd scan_ys_square scan_line_def clip retained_def)
  have srt: "sorted_segments K g 50 = [LineString [(0, 0), (100, 0)], LineString [(0, 50), (100, 50)],
                  LineString [(0, 100), (100, 100)]]"
    by (simp add: sorted_segments_def segs cen)
  have f0: "forward_points K (project_to_latlon_of K g) 10 20 (LineString [(0, 0), (100, 0)]) =
      map (\<lambda>x. tag (project_to_latlon_of K g) 20 (x, 0)) [0, 10, 20, 30, 40, 50, 60, 70, 80, 90, 100]"
    by (rule scene_forward_points) (simp_all add: len itp)
  have f1: "forward_points K (project_to_latlon_of K g) 10 20 (LineString [(0, 50), (100, 50)]) =
      map (\<lambda>x. tag (project_to_latlon_of K g) 20 (x, 50)) [0, 10, 20, 30, 40, 50, 60, 70, 80, 90, 100]"
    by (rule scene_forward_points) (simp_all add: len itp)
  have f2: "forward_points K (project_to_latlon_of K g) 10 20 (LineString [(0, 100), (100, 100)]) =
      map (\<lambda>x. tag (project_to_latlon_of K g) 20 (x, 100)) [0, 10, 20, 30, 40, 50, 60, 70, 80, 90, 100]"
    by (rule scene_forward_points) (simp_all add: len itp)
  have three: "[0..<3] = [0, 1, 2]" by (simp add: upt_rec)
  have w: "(10::real) \<noteq> 0" and s: "(0::real) < 50" by simp_all
  show "generate_sweep_waypoints K polygon_coords 50 10 20 =
           Some (Inr (map (tag (project_to_latlon_of K g) 20) square_path))"
    unfolding generate_closed [OF acc s w] srt
    by (simp add: three traversal_def f0 f1 f2 square_path_def)
qed

text \<open>The reference kernel is such a kernel; its projection is the identity.\<close>

theorem square_scenario_witness:
  "generate_sweep_waypoints planar_kernel square 50 10 20 =
     Some (Inr (map (\<lambda>(x, y). (x, y, 20)) square_path))"
proof -
  have t: "tag (project_to_latlon_of planar_kernel (Polygon square)) 20 = (\<lambda>(x, y). (x, y, 20))"
    by (auto simp add: tag_def project_to_latlon_of_def planar_kernel_def)
  have clip: "\<And>y. y \<in> {0, 50, 100} \<Longrightarrow>
        intersection planar_kernel (LineString [(0, y), (100, y)]) (Polygon square) = LineString [(0, y), (100, y)]"
    using pk_square_clip by auto
  have itp: "\<And>y d. y \<in> {0::real, 50, 100} \<Longrightarrow> 0 \<le> d \<Longrightarrow> d \<le> 100 \<Longrightarrow>
        interpolate planar_kernel (LineString [(0, y), (100, y)]) d = (d, y)"
    by (rule pk_hline_interpolate) simp_all
  from square_scenario [of planar_kernel square "Polygon square", OF pk_square_accepted pk_poly_utm
      pk_square_bounds clip _ _ itp]
  show ?thesis
    unfolding t by (simp add: pk_hline_length pk_hline_centroid)
qed







end
